theory Spec2Isabelle
  imports Main "HOL-Library.Char_ord" "HOL-Library.List_Lexorder"
begin

unbundle bit_operations_syntax

section \<open>Machine integers\<close>

text \<open>
  The byte counter and \<open>MaxSize\<close> are \<open>int64\<close>; \<open>MaxBackups\<close> and slice lengths are
  \<open>int\<close>, taken as 64 bits wide.  Values are kept as mathematical integers and every
  addition or subtraction of the source that can leave the range is wrapped.
\<close>

definition wrap_int64 :: "int \<Rightarrow> int" where
  "wrap_int64 x = (x + 9223372036854775808) mod 18446744073709551616 - 9223372036854775808"

section \<open>Paths (\<open>path/filepath\<close> on a Unix system)\<close>

definition IsPathSeparator :: "char \<Rightarrow> bool" where
  "IsPathSeparator c = (c = CHR ''/'')"

text \<open>
  \<open>filepath.Ext\<close> walks from the last byte towards the front, stops at a separator and
  returns the suffix that begins at the first dot it meets.  The walk is over the
  reversed path; \<open>acc\<close> is the part already passed, in its original order.
\<close>

fun Ext_scan :: "string \<Rightarrow> string \<Rightarrow> string" where
  "Ext_scan [] acc = []"
| "Ext_scan (c # rs) acc =
     (if IsPathSeparator c then []
      else if c = CHR ''.'' then c # acc
      else Ext_scan rs (c # acc))"

definition Ext :: "string \<Rightarrow> string" where
  "Ext path = Ext_scan (rev path) []"

text \<open>
  \<open>filepath.Base\<close>: the last element of the path, after trailing separators are
  stripped; \<open>"."\<close> for the empty path and \<open>"/"\<close> for a path of separators only.
\<close>

definition Base :: "string \<Rightarrow> string" where
  "Base path =
     (if path = [] then ''.''
      else let p = rev (dropWhile IsPathSeparator (rev path));
               e = rev (takeWhile (\<lambda>c. \<not> IsPathSeparator c) (rev p))
           in if e = [] then ''/'' else e)"

section \<open>Time (\<open>time.Time\<close> and its \<open>Format\<close>)\<close>

text \<open>
  A \<open>time.Time\<close> is an instant together with a location.  The calendar and the zone
  database belong to the standard library, so an instant is represented by its two
  wall-clock readings, to the second: the one in UTC and the one in the location the
  value was created with.  \<open>in_UTC\<close> tells which location the value carries now.
\<close>

record civil =
  year :: int
  month :: int
  day :: int
  hour :: int
  minute :: int
  second :: int

record time =
  utc_reading :: civil
  zone_reading :: civil
  in_UTC :: bool

definition UTC :: "time \<Rightarrow> time" where
  "UTC t = t\<lparr>in_UTC := True\<rparr>"

definition reading :: "time \<Rightarrow> civil" where
  "reading t = (if in_UTC t then utc_reading t else zone_reading t)"

text \<open>The fields of a reading that a real clock can show, with a four-digit year.\<close>

definition valid_civil :: "civil \<Rightarrow> bool" where
  "valid_civil c =
     (0 \<le> year c \<and> year c \<le> 9999 \<and> 1 \<le> month c \<and> month c \<le> 12 \<and>
      1 \<le> day c \<and> day c \<le> 31 \<and> 0 \<le> hour c \<and> hour c < 24 \<and>
      0 \<le> minute c \<and> minute c < 60 \<and> 0 \<le> second c \<and> second c < 60)"

text \<open>Readings compare field by field, the year first.\<close>

definition civil_key :: "civil \<Rightarrow> int list" where
  "civil_key c = [year c, month c, day c, hour c, minute c, second c]"

definition civil_less :: "civil \<Rightarrow> civil \<Rightarrow> bool" where
  "civil_less a b = (civil_key a < civil_key b)"

text \<open>One instant is earlier than another when its UTC reading is.\<close>

definition earlier :: "time \<Rightarrow> time \<Rightarrow> bool" where
  "earlier t1 t2 = civil_less (utc_reading t1) (utc_reading t2)"

text \<open>
  \<open>appendInt\<close> of package \<open>time\<close>: a minus sign for a negative number, then the
  decimal digits, padded with zeros on the left up to \<open>width\<close>.
\<close>

definition digit_char :: "int \<Rightarrow> char" where
  "digit_char d = ''0123456789'' ! nat d"

function digits :: "int \<Rightarrow> string" where
  "digits n = (if n < 10 then [digit_char n] else digits (n div 10) @ [digit_char (n mod 10)])"
  by pat_completeness auto
termination
  by (relation "measure nat") auto

declare digits.simps [simp del]

definition appendInt :: "int \<Rightarrow> nat \<Rightarrow> string" where
  "appendInt x width =
     (let ds = digits \<bar>x\<bar>
      in (if x < 0 then ''-'' else []) @ replicate (width - length ds) CHR ''0'' @ ds)"

text \<open>\<open>now.Format(".2006-01-02T15-04-05")\<close>.\<close>

definition Format_stamp :: "time \<Rightarrow> string" where
  "Format_stamp t =
     (let c = reading t
      in ''.'' @ appendInt (year c) 4 @ ''-'' @ appendInt (month c) 2 @ ''-'' @
         appendInt (day c) 2 @ ''T'' @ appendInt (hour c) 2 @ ''-'' @
         appendInt (minute c) 2 @ ''-'' @ appendInt (second c) 2)"

section \<open>The writer and its naming function\<close>

text \<open>
  \<open>*os.File\<close>: a descriptor and the name the file was opened with (\<open>file.Name()\<close>).
\<close>

record os_File =
  fd :: nat
  fname :: string

text \<open>
  The struct \<open>FastFileWriter\<close>.  \<open>file_w\<close> is the \<open>atomic.Value\<close> of field \<open>file\<close>, \<open>None\<close> while nothing
  has been stored; the mutex has no field, see the section on \<open>Write\<close>.
\<close>

record FastFileWriter =
  size_w :: int
  file_w :: "os_File option"
  Filename :: string
  MaxSize :: int
  MaxBackups :: int
  FileMode :: nat
  LocalTime :: bool
  HostName :: bool
  ProcessID :: bool

text \<open>
  Package variables and process facts that the file reads but does not declare:
  \<open>hostname\<close> and \<open>pid\<close> (strings), the two environment variables of the ownership
  correction and the effective user id.
\<close>

record proc =
  hostname :: string
  pid :: string
  SUDO_UID :: string
  SUDO_GID :: string
  euid :: int

definition O_WRONLY :: nat where "O_WRONLY = 1"
definition O_CREATE :: nat where "O_CREATE = 64"
definition O_APPEND :: nat where "O_APPEND = 1024"

definition openinfo :: "proc \<Rightarrow> FastFileWriter \<Rightarrow> time \<Rightarrow> string \<times> nat \<times> nat" where
  "openinfo env w now0 =
     (let now = (if \<not> LocalTime w then UTC now0 else now0);
          ext = Ext (Filename w);
          prefix = take (length (Filename w) - length ext) (Filename w);
          filename = prefix @ Format_stamp now;
          filename = (if HostName w
                      then (if ProcessID w
                            then filename @ ''.'' @ hostname env @ ''-'' @ pid env @ ext
                            else filename @ ''.'' @ hostname env @ ext)
                      else (if ProcessID w
                            then filename @ ''.'' @ pid env @ ext
                            else filename @ ext));
          flag = O_APPEND OR O_CREATE OR O_WRONLY;
          perm = FileMode w;
          perm = (if perm = 0 then 420 else perm)
      in (filename, flag, perm))"

section \<open>The operating system\<close>

text \<open>
  The filesystem is an external collaborator.  It is modelled as one directory table
  from full path names to nodes, the contents of the regular files by inode, and the
  table of open descriptors.  Path names are compared as they are written.  Every call
  is appended to \<open>trace\<close>, so that what the writer asks of the system can be observed;
  \<open>faults\<close> lets any call on any path fail with an error number before it changes
  anything.  \<open>Match\<close> is the verdict of the pattern language of \<open>path/filepath\<close>: which
  names a pattern matches is the library's matter and a parameter of the world.
\<close>

datatype errno = ErrClosed | ENOENT | EEXIST | ELOOP | Errno nat

datatype error =
    PathError string string errno
  | LinkError string string string errno

datatype sysop = Op_open | Op_write | Op_close | Op_remove | Op_symlink | Op_lchown | Op_chown | Op_glob

datatype event =
    Call_rotate
  | Sys_OpenFile string nat nat
  | Sys_Write nat string
  | Sys_Close nat
  | Sys_Remove string
  | Sys_Symlink string string
  | Sys_Lchown string int int
  | Sys_Chown string int int
  | Sys_Glob string

datatype node = Regular nat | Symlink_to string

record world =
  dir :: "(string \<times> node) list"
  inodes :: "(nat \<times> string) list"
  open_fds :: "(nat \<times> nat) list"
  owners :: "(string \<times> int option \<times> int option) list"
  next_fd :: nat
  next_ino :: nat
  faults :: "sysop \<Rightarrow> string \<Rightarrow> nat option"
  Match :: "string \<Rightarrow> string \<Rightarrow> bool"
  now :: time
  trace :: "event list"

definition emit :: "event \<Rightarrow> world \<Rightarrow> world" where
  "emit e s = s\<lparr>trace := trace s @ [e]\<rparr>"

text \<open>
  Following symbolic links: the target of a link is taken as it is when it starts with
  a separator and is joined to the directory of the link otherwise.  A walk through
  more than 40 links gives up (\<open>None\<close>, the \<open>ELOOP\<close> of the system).
\<close>

definition link_target :: "string \<Rightarrow> string \<Rightarrow> string" where
  "link_target name t =
     (if t \<noteq> [] \<and> IsPathSeparator (hd t) then t
      else rev (dropWhile (\<lambda>c. \<not> IsPathSeparator c) (rev name)) @ t)"

fun resolve :: "nat \<Rightarrow> (string \<times> node) list \<Rightarrow> string \<Rightarrow> string option" where
  "resolve 0 d name =
     (case map_of d name of Some (Symlink_to t) \<Rightarrow> None | Some (Regular i) \<Rightarrow> Some name | None \<Rightarrow> Some name)"
| "resolve (Suc k) d name =
     (case map_of d name of
        Some (Symlink_to t) \<Rightarrow> resolve k d (link_target name t)
      | Some (Regular i) \<Rightarrow> Some name
      | None \<Rightarrow> Some name)"

text \<open>
  \<open>os.OpenFile\<close> in the one mode the writer uses (append, create, write-only, links
  followed): the regular file that the name leads to is opened, and created empty
  where it is missing.  \<open>file.Name()\<close> is the name as given.
\<close>

definition OpenFile :: "string \<Rightarrow> nat \<Rightarrow> nat \<Rightarrow> world \<Rightarrow> (error + os_File) \<times> world" where
  "OpenFile name flag perm s0 =
     (let s = emit (Sys_OpenFile name flag perm) s0
      in case faults s Op_open name of
           Some e \<Rightarrow> (Inl (PathError ''open'' name (Errno e)), s)
         | None \<Rightarrow>
            (case resolve 40 (dir s) name of
               None \<Rightarrow> (Inl (PathError ''open'' name ELOOP), s)
             | Some r \<Rightarrow>
                (case map_of (dir s) r of
                   Some (Symlink_to t) \<Rightarrow> (Inl (PathError ''open'' name ELOOP), s)
                 | Some (Regular i) \<Rightarrow>
                     (Inr \<lparr>fd = next_fd s, fname = name\<rparr>,
                      s\<lparr>open_fds := (next_fd s, i) # open_fds s, next_fd := Suc (next_fd s)\<rparr>)
                 | None \<Rightarrow>
                     (Inr \<lparr>fd = next_fd s, fname = name\<rparr>,
                      s\<lparr>dir := dir s @ [(r, Regular (next_ino s))],
                        inodes := (next_ino s, []) # inodes s,
                        open_fds := (next_fd s, next_ino s) # open_fds s,
                        next_fd := Suc (next_fd s),
                        next_ino := Suc (next_ino s)\<rparr>))))"

text \<open>
  \<open>(*os.File).Write\<close>: on a descriptor that is no longer open the result is
  \<open>0\<close> and a \<open>*PathError\<close> wrapping \<open>os.ErrClosed\<close>; otherwise the bytes are appended
  to the file's contents.
\<close>

definition file_Write :: "os_File \<Rightarrow> string \<Rightarrow> world \<Rightarrow> (nat \<times> error option) \<times> world" where
  "file_Write f p s0 =
     (let s = emit (Sys_Write (fd f) p) s0
      in case map_of (open_fds s) (fd f) of
           None \<Rightarrow> ((0, Some (PathError ''write'' (fname f) ErrClosed)), s)
         | Some i \<Rightarrow>
            (case faults s Op_write (fname f) of
               Some e \<Rightarrow> ((0, Some (PathError ''write'' (fname f) (Errno e))), s)
             | None \<Rightarrow>
                 ((length p, None),
                  s\<lparr>inodes := map (\<lambda>(j, d). if j = i then (j, d @ p) else (j, d)) (inodes s)\<rparr>)))"

definition file_Close :: "os_File \<Rightarrow> world \<Rightarrow> error option \<times> world" where
  "file_Close f s0 =
     (let s = emit (Sys_Close (fd f)) s0
      in case map_of (open_fds s) (fd f) of
           None \<Rightarrow> (Some (PathError ''close'' (fname f) ErrClosed), s)
         | Some i \<Rightarrow>
            (case faults s Op_close (fname f) of
               Some e \<Rightarrow> Some (PathError ''close'' (fname f) (Errno e))
             | None \<Rightarrow> None,
             s\<lparr>open_fds := filter (\<lambda>(k, j). k \<noteq> fd f) (open_fds s)\<rparr>))"

definition Remove :: "string \<Rightarrow> world \<Rightarrow> error option \<times> world" where
  "Remove name s0 =
     (let s = emit (Sys_Remove name) s0
      in case faults s Op_remove name of
           Some e \<Rightarrow> (Some (PathError ''remove'' name (Errno e)), s)
         | None \<Rightarrow>
            (case map_of (dir s) name of
               None \<Rightarrow> (Some (PathError ''remove'' name ENOENT), s)
             | Some n \<Rightarrow>
                 (None, s\<lparr>dir := filter (\<lambda>(k, n). k \<noteq> name) (dir s),
                           owners := filter (\<lambda>(k, n). k \<noteq> name) (owners s)\<rparr>)))"

definition Symlink :: "string \<Rightarrow> string \<Rightarrow> world \<Rightarrow> error option \<times> world" where
  "Symlink oldname newname s0 =
     (let s = emit (Sys_Symlink oldname newname) s0
      in case faults s Op_symlink newname of
           Some e \<Rightarrow> (Some (LinkError ''symlink'' oldname newname (Errno e)), s)
         | None \<Rightarrow>
            (case map_of (dir s) newname of
               Some n \<Rightarrow> (Some (LinkError ''symlink'' oldname newname EEXIST), s)
             | None \<Rightarrow> (None, s\<lparr>dir := dir s @ [(newname, Symlink_to oldname)]\<rparr>)))"

text \<open>
  Ownership.  The system call takes the two ids as 32-bit values: the \<open>int\<close> of the
  caller is cut to its low 32 bits, and the value \<open>2^32 - 1\<close> (that is \<open>-1\<close>) leaves
  that id as it is.  An id that was never set (\<open>None\<close>) is the one the node was
  created with.  \<open>Lchown\<close> changes the named node itself, \<open>Chown\<close> the node the name
  leads to through symbolic links.
\<close>

definition new_id :: "int \<Rightarrow> int option \<Rightarrow> int option" where
  "new_id x old = (if x mod 4294967296 = 4294967295 then old else Some (x mod 4294967296))"

definition set_owner :: "string \<Rightarrow> int \<Rightarrow> int \<Rightarrow> world \<Rightarrow> world" where
  "set_owner name uid gid s =
     (let old = (case map_of (owners s) name of None \<Rightarrow> (None, None) | Some ids \<Rightarrow> ids)
      in s\<lparr>owners := (name, new_id uid (fst old), new_id gid (snd old))
                          # filter (\<lambda>(k, n). k \<noteq> name) (owners s)\<rparr>)"

definition Lchown :: "string \<Rightarrow> int \<Rightarrow> int \<Rightarrow> world \<Rightarrow> error option \<times> world" where
  "Lchown name uid gid s0 =
     (let s = emit (Sys_Lchown name uid gid) s0
      in case faults s Op_lchown name of
           Some e \<Rightarrow> (Some (PathError ''lchown'' name (Errno e)), s)
         | None \<Rightarrow>
            (case map_of (dir s) name of
               None \<Rightarrow> (Some (PathError ''lchown'' name ENOENT), s)
             | Some n \<Rightarrow> (None, set_owner name uid gid s)))"

definition Chown :: "string \<Rightarrow> int \<Rightarrow> int \<Rightarrow> world \<Rightarrow> error option \<times> world" where
  "Chown name uid gid s0 =
     (let s = emit (Sys_Chown name uid gid) s0
      in case faults s Op_chown name of
           Some e \<Rightarrow> (Some (PathError ''chown'' name (Errno e)), s)
         | None \<Rightarrow>
            (case resolve 40 (dir s) name of
               None \<Rightarrow> (Some (PathError ''chown'' name ELOOP), s)
             | Some r \<Rightarrow>
                (case map_of (dir s) r of
                   None \<Rightarrow> (Some (PathError ''chown'' name ENOENT), s)
                 | Some n \<Rightarrow> (None, set_owner r uid gid s))))"

text \<open>
  \<open>filepath.Glob\<close>: the names of the table that the pattern matches, as \<open>Match\<close> of
  the world decides; an error gives no names.
\<close>

definition Glob :: "string \<Rightarrow> world \<Rightarrow> string list \<times> world" where
  "Glob pattern s0 =
     (let s = emit (Sys_Glob pattern) s0
      in case faults s Op_glob pattern of
           Some e \<Rightarrow> ([], s)
         | None \<Rightarrow> (filter (Match s pattern) (map fst (dir s)), s))"

text \<open>
  The pattern language restricted to \<open>*\<close>, which stands for any run of bytes without a
  separator.  On patterns and names free of \<open>?\<close>, \<open>[\<close> and \<open>\\<close> it is the library's
  \<open>Match\<close>; the concrete worlds below, whose names are of that kind, take it.
\<close>

fun star_match :: "string \<Rightarrow> string \<Rightarrow> bool" where
  "star_match [] [] = True"
| "star_match [] (c # cs) = False"
| "star_match (p # ps) [] = (p = CHR ''*'' \<and> star_match ps [])"
| "star_match (p # ps) (c # cs) =
     (if p = CHR ''*''
      then star_match ps (c # cs) \<or> (\<not> IsPathSeparator c \<and> star_match (p # ps) cs)
      else p = c \<and> star_match ps cs)"

text \<open>
  \<open>strconv.Atoi\<close>: an optional sign and decimal digits; \<open>0\<close> on a syntax error,
  the nearest bound of the range on overflow (the caller drops the error).
\<close>

definition is_digit :: "char \<Rightarrow> bool" where
  "is_digit c = (CHR ''0'' \<le> c \<and> c \<le> CHR ''9'')"

definition digit_val :: "char \<Rightarrow> int" where
  "digit_val c = int (of_char c) - 48"

definition Atoi :: "string \<Rightarrow> int" where
  "Atoi s =
     (let signed = (s \<noteq> [] \<and> (hd s = CHR ''-'' \<or> hd s = CHR ''+''));
          neg = (s \<noteq> [] \<and> hd s = CHR ''-'');
          body = (if signed then tl s else s)
      in if body = [] \<or> \<not> list_all is_digit body then 0
         else let n = fold (\<lambda>c a. a * 10 + digit_val c) body 0;
                  v = (if neg then - n else n)
              in max (- 9223372036854775808) (min 9223372036854775807 v))"

section \<open>Rotation, creation and the public methods\<close>

text \<open>
  A call either returns or panics: an index out of range and a type assertion on a
  nil interface end the goroutine.
\<close>

datatype 'a outcome = is_Panic: Panic | Returned (returned: 'a)

text \<open>
  The retention loop \<open>for i := 0; i < len(names)-w.MaxBackups-1; i++\<close> with its
  bound already computed; \<open>names[i]\<close> beyond the slice panics (\<open>None\<close>).
\<close>

function sweep_loop :: "nat \<Rightarrow> int \<Rightarrow> string list \<Rightarrow> world \<Rightarrow> world option" where
  "sweep_loop i bound names s =
     (if int i < bound
      then (if i < length names
            then sweep_loop (Suc i) bound names (snd (Remove (names ! i) s))
            else None)
      else Some s)"
  by pat_completeness auto
termination
  by (relation "measure (\<lambda>(i, bound, names, s). length names - i)") auto

declare sweep_loop.simps [simp del]

text \<open>\<open>os.OpenFile(w.openinfo(timeNow()))\<close>; \<open>timeNow()\<close> reads the clock of the world.\<close>

definition open_new :: "proc \<Rightarrow> FastFileWriter \<Rightarrow> world \<Rightarrow> (error + os_File) \<times> world" where
  "open_new env w s =
     (case openinfo env w (now s) of (filename, flag, perm) \<Rightarrow> OpenFile filename flag perm s)"

text \<open>Lines 111 to 118 of \<open>rotate\<close>: the retention sweep.  \<open>None\<close> is a panic.\<close>

definition backup_pattern :: "FastFileWriter \<Rightarrow> string" where
  "backup_pattern w =
     (let ext = Ext (Filename w)
      in take (length (Filename w) - length ext) (Filename w) @ ''.20*'' @ ext)"

definition retention_sweep :: "FastFileWriter \<Rightarrow> world \<Rightarrow> world option" where
  "retention_sweep w s =
     (case Glob (backup_pattern w) s of (names, s1) \<Rightarrow>
        if length names > 0
        then sweep_loop 0 (wrap_int64 (int (length names) - MaxBackups w - 1)) (sort names) s1
        else Some s1)"

text \<open>
  \<open>rotate\<close>.  The first line is not in the source: it records the call in the trace.
\<close>

definition rotate :: "proc \<Rightarrow> FastFileWriter \<Rightarrow> world \<Rightarrow> (error option \<times> FastFileWriter \<times> world) outcome" where
  "rotate env w s00 =
     (let s0 = emit Call_rotate s00
      in case open_new env w s0 of
           (Inl err, s1) \<Rightarrow> Returned (Some err, w, s1)
         | (Inr f, s1) \<Rightarrow>
            (let oldfile = file_w w;
                 w1 = w\<lparr>file_w := Some f\<rparr>;
                 w2 = w1\<lparr>size_w := 0\<rparr>;
                 s2 = (case oldfile of None \<Rightarrow> s1 | Some old \<Rightarrow> snd (file_Close old s1));
                 s3 = snd (Remove (Filename w) s2);
                 s4 = snd (Symlink (Base (fname f)) (Filename w) s3);
                 uid = Atoi (SUDO_UID env);
                 gid = Atoi (SUDO_GID env);
                 s5 = (if uid \<noteq> 0 \<and> gid \<noteq> 0 \<and> euid env = 0
                       then snd (Chown (fname f) uid gid (snd (Lchown (Filename w) uid gid s4)))
                       else s4)
             in case retention_sweep w2 s5 of
                  None \<Rightarrow> Panic
                | Some s6 \<Rightarrow> Returned (None, w2, s6)))"

definition create :: "proc \<Rightarrow> FastFileWriter \<Rightarrow> world \<Rightarrow> os_File option \<times> error option \<times> FastFileWriter \<times> world" where
  "create env w s =
     (case open_new env w s of
        (Inl err, s1) \<Rightarrow> (None, Some err, w, s1)
      | (Inr f, s1) \<Rightarrow>
         (let w1 = w\<lparr>file_w := Some f\<rparr>;
              w2 = w1\<lparr>size_w := 0\<rparr>;
              s2 = snd (Remove (Filename w) s1);
              s3 = snd (Symlink (Base (fname f)) (Filename w) s2)
          in (Some f, None, w2, s3)))"

text \<open>
  \<open>Write\<close> is given in the pieces between which another goroutine can run.  The mutex
  is not represented: a piece that the source runs between \<open>Lock\<close> and \<open>Unlock\<close> is one
  function here, applied to the shared state as it is when the lock is taken.

  \<^item> \<open>Write_recheck\<close>: lines 56 to 61, the check of the counter under the lock.
  \<^item> \<open>Write_check\<close>: line 55, the atomic addition and the comparison.
  \<^item> \<open>Write_from\<close>: lines 36 to 64, with the local \<open>file\<close> that line 34 loaded.
  \<^item> \<open>Write\<close>: the whole method when no other goroutine runs in between.
\<close>

definition is_ErrClosed :: "error option \<Rightarrow> bool" where
  "is_ErrClosed err = (case err of Some (PathError opn path ErrClosed) \<Rightarrow> True | _ \<Rightarrow> False)"

type_synonym write_result = "(nat \<times> error option \<times> FastFileWriter \<times> world) outcome"

definition Write_recheck :: "proc \<Rightarrow> nat \<Rightarrow> error option \<Rightarrow> FastFileWriter \<Rightarrow> world \<Rightarrow> write_result" where
  "Write_recheck env n err w s =
     (if size_w w > MaxSize w
      then (case rotate env w s of
              Panic \<Rightarrow> Panic
            | Returned (e, w', s') \<Rightarrow> Returned (n, err, w', s'))
      else Returned (n, err, w, s))"

definition Write_check :: "proc \<Rightarrow> nat \<Rightarrow> error option \<Rightarrow> FastFileWriter \<Rightarrow> world \<Rightarrow> write_result" where
  "Write_check env n err w s =
     (if MaxSize w > 0
      then (let w1 = w\<lparr>size_w := wrap_int64 (size_w w + int n)\<rparr>
            in if size_w w1 > MaxSize w then Write_recheck env n err w1 s
               else Returned (n, err, w1, s))
      else Returned (n, err, w, s))"

definition Write_from :: "proc \<Rightarrow> os_File option \<Rightarrow> FastFileWriter \<Rightarrow> string \<Rightarrow> world \<Rightarrow> write_result" where
  "Write_from env file0 w p s =
     (case file0 of
        Some f \<Rightarrow>
          (case file_Write f p s of ((n, err), s1) \<Rightarrow>
             if is_ErrClosed err
             then (case file_w w of
                     None \<Rightarrow> Panic
                   | Some f' \<Rightarrow>
                       (case file_Write f' p s1 of ((n', err'), s2) \<Rightarrow> Write_check env n' err' w s2))
             else Write_check env n err w s1)
      | None \<Rightarrow>
          (case (if file_w w = None then create env w s else (None, None, w, s)) of
             (file1, err, w1, s1) \<Rightarrow>
               if err \<noteq> None then Returned (0, err, w1, s1)
               else (case file1 of
                       None \<Rightarrow> Panic
                     | Some f \<Rightarrow>
                         (case file_Write f p s1 of ((n, err'), s2) \<Rightarrow> Write_check env n err' w1 s2))))"

definition Write :: "proc \<Rightarrow> FastFileWriter \<Rightarrow> string \<Rightarrow> world \<Rightarrow> write_result" where
  "Write env w p s = Write_from env (file_w w) w p s"

definition Close :: "FastFileWriter \<Rightarrow> world \<Rightarrow> error option \<times> FastFileWriter \<times> world" where
  "Close w s =
     (case file_w w of
        Some f \<Rightarrow> (case file_Close f s of (err, s1) \<Rightarrow> (err, w\<lparr>size_w := 0\<rparr>, s1))
      | None \<Rightarrow> (None, w, s))"

definition Rotate :: "proc \<Rightarrow> FastFileWriter \<Rightarrow> world \<Rightarrow> (error option \<times> FastFileWriter \<times> world) outcome" where
  "Rotate env w s = rotate env w s"

section \<open>Observations\<close>


text \<open>What a call has added to the trace.\<close>

definition new_events :: "world \<Rightarrow> world \<Rightarrow> event list" where
  "new_events s s' = drop (length (trace s)) (trace s')"

text \<open>Values of an \<open>int\<close> of 64 bits.\<close>

definition is_int64 :: "int \<Rightarrow> bool" where
  "is_int64 x = (- (2 ^ 63) \<le> x \<and> x < 2 ^ 63)"

text \<open>Removing a list of names one after the other, as the retention loop does.\<close>

definition remove_all :: "string list \<Rightarrow> world \<Rightarrow> world" where
  "remove_all names s = fold (\<lambda>n s. snd (Remove n s)) names s"

text \<open>
  Lines 97 to 109 of \<open>rotate\<close> in one piece: the world in which the retention sweep
  starts, from the world \<open>s1\<close> that the successful open left.
\<close>

definition before_sweep :: "proc \<Rightarrow> FastFileWriter \<Rightarrow> os_File \<Rightarrow> world \<Rightarrow> world" where
  "before_sweep env w f s1 =
     (let s2 = (case file_w w of None \<Rightarrow> s1 | Some old \<Rightarrow> snd (file_Close old s1));
          s3 = snd (Remove (Filename w) s2);
          s4 = snd (Symlink (Base (fname f)) (Filename w) s3);
          uid = Atoi (SUDO_UID env);
          gid = Atoi (SUDO_GID env)
      in if uid \<noteq> 0 \<and> gid \<noteq> 0 \<and> euid env = 0
         then snd (Chown (fname f) uid gid (snd (Lchown (Filename w) uid gid s4)))
         else s4)"

text \<open>
  The same steps as functions of the result of the step before, without local names;
  the equations that evaluate \<open>rotate\<close> and \<open>before_sweep\<close> are stated with them.
\<close>

definition close_old :: "FastFileWriter \<Rightarrow> world \<Rightarrow> world" where
  "close_old w s1 = (case file_w w of None \<Rightarrow> s1 | Some old \<Rightarrow> snd (file_Close old s1))"

definition ownership_correction :: "proc \<Rightarrow> FastFileWriter \<Rightarrow> os_File \<Rightarrow> world \<Rightarrow> world" where
  "ownership_correction env w f s4 =
     (if Atoi (SUDO_UID env) \<noteq> 0 \<and> Atoi (SUDO_GID env) \<noteq> 0 \<and> euid env = 0
      then snd (Chown (fname f) (Atoi (SUDO_UID env)) (Atoi (SUDO_GID env))
                 (snd (Lchown (Filename w) (Atoi (SUDO_UID env)) (Atoi (SUDO_GID env)) s4)))
      else s4)"

fun sweep_result :: "FastFileWriter \<Rightarrow> world option \<Rightarrow> (error option \<times> FastFileWriter \<times> world) outcome" where
  "sweep_result w2 None = Panic"
| "sweep_result w2 (Some s6) = Returned (None, w2, s6)"

definition rotate_after_open :: "proc \<Rightarrow> FastFileWriter \<Rightarrow> (error + os_File) \<times> world \<Rightarrow> (error option \<times> FastFileWriter \<times> world) outcome" where
  "rotate_after_open env w r =
     (if isl (fst r) then Returned (Some (projl (fst r)), w, snd r)
      else sweep_result (w\<lparr>file_w := Some (projr (fst r)), size_w := 0\<rparr>)
             (retention_sweep (w\<lparr>file_w := Some (projr (fst r)), size_w := 0\<rparr>)
                (before_sweep env w (projr (fst r)) (snd r))))"

text \<open>The pieces of \<open>Write_from\<close> in the same style.\<close>

fun write_checked :: "proc \<Rightarrow> FastFileWriter \<Rightarrow> (nat \<times> error option) \<times> world \<Rightarrow> write_result" where
  "write_checked env w ((n, err), s) = Write_check env n err w s"

definition write_retry :: "proc \<Rightarrow> FastFileWriter \<Rightarrow> string \<Rightarrow> (nat \<times> error option) \<times> world \<Rightarrow> write_result" where
  "write_retry env w p r =
     (if is_ErrClosed (snd (fst r))
      then (if file_w w = None then Panic
            else write_checked env w (file_Write (the (file_w w)) p (snd r)))
      else write_checked env w r)"

definition write_created :: "proc \<Rightarrow> string \<Rightarrow> os_File option \<times> error option \<times> FastFileWriter \<times> world \<Rightarrow> write_result" where
  "write_created env p c =
     (if fst (snd c) \<noteq> None then Returned (0, fst (snd c), fst (snd (snd c)), snd (snd (snd c)))
      else if fst c = None then Panic
      else write_checked env (fst (snd (snd c))) (file_Write (the (fst c)) p (snd (snd (snd c)))))"

text \<open>Calls of \<open>Write\<close> one after the other by one goroutine, with their results.\<close>

fun Writes :: "proc \<Rightarrow> FastFileWriter \<Rightarrow> string list \<Rightarrow> world \<Rightarrow> ((nat \<times> error option) list \<times> FastFileWriter \<times> world) outcome" where
  "Writes env w [] s = Returned ([], w, s)"
| "Writes env w (p # ps) s =
     (case Write env w p s of
        Panic \<Rightarrow> Panic
      | Returned (n, err, w1, s1) \<Rightarrow>
          (case Writes env w1 ps s1 of
             Panic \<Rightarrow> Panic
           | Returned (rs, w2, s2) \<Rightarrow> Returned ((n, err) # rs, w2, s2)))"

text \<open>
  The timestamp in the words of the layout: a dot, the year in four decimal digits,
  month, day, hour, minute and second in two, with the separators of
  \<open>.2006-01-02T15-04-05\<close>.
\<close>

definition two_digits :: "int \<Rightarrow> string" where
  "two_digits n = [digit_char (n div 10), digit_char (n mod 10)]"

definition four_digits :: "int \<Rightarrow> string" where
  "four_digits n =
     [digit_char (n div 1000), digit_char (n div 100 mod 10), digit_char (n div 10 mod 10),
      digit_char (n mod 10)]"

definition stamp_of :: "civil \<Rightarrow> string" where
  "stamp_of c =
     ''.'' @ four_digits (year c) @ ''-'' @ two_digits (month c) @ ''-'' @ two_digits (day c) @
     ''T'' @ two_digits (hour c) @ ''-'' @ two_digits (minute c) @ ''-'' @ two_digits (second c)"

section \<open>Concrete configurations\<close>

text \<open>
  A writer for \<open>/var/log/app.log\<close>, a process on host \<open>h\<close> with pid \<open>123\<close>, an empty
  filesystem without faults, and the clock at second \<open>n\<close> of 2024-05-01T00:00 UTC.
\<close>

definition example_writer :: FastFileWriter where
  "example_writer =
     \<lparr>size_w = 0, file_w = None, Filename = ''/var/log/app.log'', MaxSize = 0, MaxBackups = 2,
      FileMode = 0, LocalTime = False, HostName = False, ProcessID = False\<rparr>"

definition example_proc :: proc where
  "example_proc = \<lparr>hostname = ''h'', pid = ''123'', SUDO_UID = [], SUDO_GID = [], euid = 1000\<rparr>"

definition example_civil :: "int \<Rightarrow> civil" where
  "example_civil n = \<lparr>year = 2024, month = 5, day = 1, hour = 0, minute = 0, second = n\<rparr>"

definition example_time :: "int \<Rightarrow> time" where
  "example_time n = \<lparr>utc_reading = example_civil n, zone_reading = example_civil n, in_UTC = False\<rparr>"

definition empty_world :: world where
  "empty_world =
     \<lparr>dir = [], inodes = [], open_fds = [], owners = [], next_fd = 3, next_ino = 100,
      faults = (\<lambda>opn path. None), Match = star_match, now = example_time 0, trace = []\<rparr>"

text \<open>
  A process started through \<open>sudo\<close> by user 1000, a filesystem on which every call
  except opening and writing fails with \<open>EACCES\<close>, one on which opening fails, and
  one on which only the creation of symbolic links fails.
\<close>

definition sudo_proc :: proc where
  "sudo_proc = \<lparr>hostname = ''h'', pid = ''123'', SUDO_UID = ''1000'', SUDO_GID = ''1000'', euid = 0\<rparr>"

definition maintenance_fault_world :: world where
  "maintenance_fault_world =
     empty_world\<lparr>faults := (\<lambda>opn path. if opn = Op_open \<or> opn = Op_write then None else Some 13)\<rparr>"

definition open_fault_world :: world where
  "open_fault_world =
     empty_world\<lparr>faults := (\<lambda>opn path. if opn = Op_open then Some 13 else None)\<rparr>"

definition symlink_fault_world :: world where
  "symlink_fault_world =
     empty_world\<lparr>faults := (\<lambda>opn path. if opn = Op_symlink then Some 13 else None)\<rparr>"

text \<open>
  A first write on the fresh writer; then \<open>Close\<close> and a second write.  The results
  are read with \<open>returned\<close> and the projections of the tuple.
\<close>

definition first_write :: write_result where
  "first_write = Write example_proc example_writer ''hello'' empty_world"

definition write_close_write :: write_result where
  "write_close_write =
     (case first_write of
        Panic \<Rightarrow> Panic
      | Returned (n, err, w1, s1) \<Rightarrow>
          (case Close w1 s1 of (cerr, w2, s2) \<Rightarrow> Write example_proc w2 ''again'' s2))"

text \<open>
  Two goroutines call \<open>Write\<close> on the fresh writer.  The first runs line 34 and loads
  no handle; the second then runs its whole call; the first goes on from line 36 with
  what it loaded, on the state the second has left.
\<close>

definition racing_write :: write_result where
  "racing_write =
     (let file0 = file_w example_writer
      in Write_from example_proc file0 (fst (snd (snd (returned first_write)))) ''again''
           (snd (snd (snd (returned first_write)))))"



text \<open>
  The instant 2024-05-01T00:00:07 UTC on a clock four hours behind UTC, and the
  example writer with both the host name and the process id in its names.
\<close>

definition zoned_time :: time where
  "zoned_time =
     \<lparr>utc_reading = example_civil 7,
      zone_reading = \<lparr>year = 2024, month = 4, day = 30, hour = 20, minute = 0, second = 7\<rparr>,
      in_UTC = False\<rparr>"

definition host_pid_writer :: FastFileWriter where
  "host_pid_writer = example_writer\<lparr>HostName := True, ProcessID := True\<rparr>"


text \<open>
  Forced rotations one after the other, each at the given second of the example clock;
  \<open>None\<close> when one of them panics.
\<close>

fun rotations :: "int list \<Rightarrow> FastFileWriter \<Rightarrow> world \<Rightarrow> (FastFileWriter \<times> world) option"
  and after_rotation :: "int list \<Rightarrow> (error option \<times> FastFileWriter \<times> world) outcome \<Rightarrow> (FastFileWriter \<times> world) option" where
  "rotations [] w s = Some (w, s)"
| "rotations (n # ns) w s = after_rotation ns (Rotate example_proc w (s\<lparr>now := example_time n\<rparr>))"
| "after_rotation ns Panic = None"
| "after_rotation ns (Returned (e, w', s')) = rotations ns w' s'"








section \<open>Facts about paths\<close>

lemma open_flag_value [code_unfold]: "O_APPEND OR O_CREATE OR O_WRONLY = 1089"
  by (simp add: O_APPEND_def O_CREATE_def O_WRONLY_def)

lemma Ext_scan_suffix: "\<exists>pre. rev rs @ acc = pre @ Ext_scan rs acc"
proof (induction rs arbitrary: acc)
  case Nil
  show ?case by simp
next
  case (Cons c rs)
  from Cons.IH [of "c # acc"] show ?case by auto
qed

lemma Ext_suffix: "\<exists>pre. path = pre @ Ext path"
  using Ext_scan_suffix [of "rev path" "[]"] by (simp add: Ext_def)

lemma stem_Ext: "take (length path - length (Ext path)) path @ Ext path = path"
proof -
  obtain pre where p: "path = pre @ Ext path" using Ext_suffix by blast
  have "take (length path - length (Ext path)) path = pre"
    by (subst (2) p, subst p) simp
  with p show ?thesis by simp
qed

lemma Ext_scan_shape:
  assumes "CHR ''.'' \<notin> set acc" and "CHR ''/'' \<notin> set acc"
  shows "(Ext_scan rs acc = [] \<and> CHR ''.'' \<notin> set (takeWhile (\<lambda>c. c \<noteq> CHR ''/'') rs)) \<or>
         (\<exists>e. Ext_scan rs acc = CHR ''.'' # e \<and> CHR ''.'' \<notin> set e \<and> CHR ''/'' \<notin> set e)"
  using assms
proof (induction rs arbitrary: acc)
  case Nil
  show ?case by simp
next
  case (Cons c rs)
  show ?case
  proof (cases "c = CHR ''/'' \<or> c = CHR ''.''")
    case True
    with Cons.prems show ?thesis by (auto simp: IsPathSeparator_def)
  next
    case False
    with Cons.prems have "CHR ''.'' \<notin> set (c # acc)" "CHR ''/'' \<notin> set (c # acc)" by auto
    from Cons.IH [OF this] False show ?thesis by (auto simp: IsPathSeparator_def)
  qed
qed

lemma Ext_shape:
  "(Ext path = [] \<and> CHR ''.'' \<notin> set (takeWhile (\<lambda>c. c \<noteq> CHR ''/'') (rev path))) \<or>
   (\<exists>e. Ext path = CHR ''.'' # e \<and> CHR ''.'' \<notin> set e \<and> CHR ''/'' \<notin> set e)"
  using Ext_scan_shape [of "[]" "rev path"] by (simp add: Ext_def)

section \<open>Facts about the operating system\<close>

lemma emit_fields [simp]:
  "dir (emit e s) = dir s" "inodes (emit e s) = inodes s" "open_fds (emit e s) = open_fds s"
  "owners (emit e s) = owners s" "next_fd (emit e s) = next_fd s" "next_ino (emit e s) = next_ino s"
  "faults (emit e s) = faults s" "Match (emit e s) = Match s" "now (emit e s) = now s" "trace (emit e s) = trace s @ [e]"
  by (simp_all add: emit_def)

lemma OpenFile_Inl:
  "OpenFile name flag perm s = (Inl e, s1) \<Longrightarrow> s1 = emit (Sys_OpenFile name flag perm) s"
  by (auto simp: OpenFile_def Let_def split: option.splits node.splits)

lemma OpenFile_trace:
  "trace (snd (OpenFile name flag perm s)) = trace s @ [Sys_OpenFile name flag perm]"
  by (auto simp: OpenFile_def Let_def split: option.splits node.splits)

lemma OpenFile_faults: "faults (snd (OpenFile name flag perm s)) = faults s"
  by (auto simp: OpenFile_def Let_def split: option.splits node.splits)

lemma OpenFile_now: "now (snd (OpenFile name flag perm s)) = now s"
  by (auto simp: OpenFile_def Let_def split: option.splits node.splits)


lemma file_Close_trace: "trace (snd (file_Close f s)) = trace s @ [Sys_Close (fd f)]"
  by (auto simp: file_Close_def Let_def split: option.splits)

lemma file_Close_faults: "faults (snd (file_Close f s)) = faults s"
  by (auto simp: file_Close_def Let_def split: option.splits)

lemma file_Close_dir: "dir (snd (file_Close f s)) = dir s"
  by (auto simp: file_Close_def Let_def split: option.splits)

lemma Remove_trace: "trace (snd (Remove name s)) = trace s @ [Sys_Remove name]"
  by (auto simp: Remove_def Let_def split: option.splits)

lemma Remove_faults: "faults (snd (Remove name s)) = faults s"
  by (auto simp: Remove_def Let_def split: option.splits)

lemma Symlink_trace:
  "trace (snd (Symlink old new s)) = trace s @ [Sys_Symlink old new]"
  by (auto simp: Symlink_def Let_def split: option.splits)

lemma Symlink_faults: "faults (snd (Symlink old new s)) = faults s"
  by (auto simp: Symlink_def Let_def split: option.splits)

lemma Lchown_trace: "trace (snd (Lchown name u g s)) = trace s @ [Sys_Lchown name u g]"
  by (auto simp: Lchown_def Let_def set_owner_def split: option.splits)

lemma Lchown_faults: "faults (snd (Lchown name u g s)) = faults s"
  by (auto simp: Lchown_def Let_def set_owner_def split: option.splits)

lemma Lchown_dir: "dir (snd (Lchown name u g s)) = dir s"
  by (auto simp: Lchown_def Let_def set_owner_def split: option.splits)

lemma Chown_trace: "trace (snd (Chown name u g s)) = trace s @ [Sys_Chown name u g]"
  by (auto simp: Chown_def Let_def set_owner_def split: option.splits)

lemma Chown_faults: "faults (snd (Chown name u g s)) = faults s"
  by (auto simp: Chown_def Let_def set_owner_def split: option.splits)

lemma Chown_dir: "dir (snd (Chown name u g s)) = dir s"
  by (auto simp: Chown_def Let_def set_owner_def split: option.splits)

lemma Glob_snd: "snd (Glob pattern s) = emit (Sys_Glob pattern) s"
  by (simp add: Glob_def Let_def split: option.splits)

lemma map_of_filter_key: "map_of (filter (\<lambda>(k, v). k \<noteq> x) xs) x = None"
  by (induction xs) auto



lemma Remove_dir_subset: "set (dir (snd (Remove name s))) \<subseteq> set (dir s)"
  by (auto simp: Remove_def Let_def split: option.splits)


section \<open>Facts about the retention loop\<close>

lemma remove_all_Nil [simp]: "remove_all [] s = s"
  by (simp add: remove_all_def)

lemma remove_all_Cons [simp]: "remove_all (n # ns) s = remove_all ns (snd (Remove n s))"
  by (simp add: remove_all_def)

lemma remove_all_trace: "trace (remove_all ns s) = trace s @ map Sys_Remove ns"
  by (induction ns arbitrary: s) (simp_all add: Remove_trace)

lemma remove_all_faults: "faults (remove_all ns s) = faults s"
  by (induction ns arbitrary: s) (simp_all add: Remove_faults)



lemma sweep_loop_remove_all:
  "bound \<le> int (length names) \<Longrightarrow>
     sweep_loop i bound names s = Some (remove_all (drop i (take (nat bound) names)) s)"
proof (induction i bound names s rule: sweep_loop.induct)
  case (1 i bound names s)
  show ?case
  proof (cases "int i < bound")
    case True
    with "1.prems" have il: "i < length names" by linarith
    from True il have it: "i < length (take (nat bound) names)" by simp
    have d: "drop i (take (nat bound) names)
               = names ! i # drop (Suc i) (take (nat bound) names)"
      using it by (simp add: Cons_nth_drop_Suc [symmetric])
    from "1.IH" [OF True il "1.prems"] True il show ?thesis
      by (subst sweep_loop.simps) (simp add: d)
  next
    case False
    then have "drop i (take (nat bound) names) = []" by simp
    with False show ?thesis
      by (subst sweep_loop.simps) simp
  qed
qed

lemma wrap_int64_id: "is_int64 x \<Longrightarrow> wrap_int64 x = x"
  by (simp add: is_int64_def wrap_int64_def)

lemma wrap_int64_range: "is_int64 (wrap_int64 x)"
proof -
  have "0 \<le> (x + 2 ^ 63) mod (2 ^ 64 :: int)" "(x + 2 ^ 63) mod (2 ^ 64 :: int) < 2 ^ 64"
    by simp_all
  then show ?thesis
    by (simp add: is_int64_def wrap_int64_def)
qed

lemma sweep_bound_le:
  assumes "- 1 \<le> mb" and "mb < 2 ^ 63"
  shows "wrap_int64 (int n - mb - 1) \<le> int n"
proof (cases "is_int64 (int n - mb - 1)")
  case True
  then show ?thesis using assms by (simp add: wrap_int64_id)
next
  case False
  with assms have "2 ^ 63 \<le> int n" by (simp add: is_int64_def)
  moreover have "wrap_int64 (int n - mb - 1) < 2 ^ 63"
    using wrap_int64_range [of "int n - mb - 1"] by (simp add: is_int64_def)
  ultimately show ?thesis by linarith
qed

section \<open>Facts about rotation\<close>

lemma Remove_open_fds: "open_fds (snd (Remove name s)) = open_fds s"
  by (auto simp: Remove_def Let_def split: option.splits)

lemma Symlink_open_fds: "open_fds (snd (Symlink old new s)) = open_fds s"
  by (auto simp: Symlink_def Let_def split: option.splits)

lemma Lchown_open_fds: "open_fds (snd (Lchown name u g s)) = open_fds s"
  by (auto simp: Lchown_def Let_def set_owner_def split: option.splits)

lemma Chown_open_fds: "open_fds (snd (Chown name u g s)) = open_fds s"
  by (auto simp: Chown_def Let_def set_owner_def split: option.splits)

lemma remove_all_open_fds: "open_fds (remove_all ns s) = open_fds s"
  by (induction ns arbitrary: s) (simp_all add: Remove_open_fds)

lemma retention_sweep_eq:
  assumes "- 1 \<le> MaxBackups w" and "MaxBackups w < 2 ^ 63"
  shows "retention_sweep w s =
           Some (remove_all
                   (take (nat (wrap_int64 (int (length (fst (Glob (backup_pattern w) s)))
                                            - MaxBackups w - 1)))
                      (sort (fst (Glob (backup_pattern w) s))))
                   (emit (Sys_Glob (backup_pattern w)) s))"
proof -
  obtain names s1 where g: "Glob (backup_pattern w) s = (names, s1)"
    by (cases "Glob (backup_pattern w) s")
  have s1: "s1 = emit (Sys_Glob (backup_pattern w)) s"
    using Glob_snd [of "backup_pattern w" s] g by simp
  have b: "wrap_int64 (int (length names) - MaxBackups w - 1) \<le> int (length (sort names))"
    using sweep_bound_le [OF assms] by simp
  show ?thesis
    using g s1 sweep_loop_remove_all [OF b, of 0 s1]
    by (auto simp: retention_sweep_def)
qed

lemma open_new_Inl:
  assumes "open_new env w s = (Inl err, s1)"
  shows "s1 = emit (Sys_OpenFile (fst (openinfo env w (now s))) (fst (snd (openinfo env w (now s))))
                      (snd (snd (openinfo env w (now s))))) s"
  using assms by (auto simp: open_new_def split: prod.splits dest: OpenFile_Inl)

lemma open_new_trace:
  "trace (snd (open_new env w s)) =
     trace s @ [Sys_OpenFile (fst (openinfo env w (now s))) (fst (snd (openinfo env w (now s))))
                      (snd (snd (openinfo env w (now s))))]"
  by (auto simp: open_new_def OpenFile_trace split: prod.splits)

lemma open_new_Inr:
  assumes "open_new env w s = (Inr f, s1)"
  shows "fd f = next_fd s" and "fname f = fst (openinfo env w (now s))"
    and "map_of (open_fds s1) (fd f) \<noteq> None" and "faults s1 = faults s"
    and "map_of (open_fds s) k \<noteq> None \<Longrightarrow> map_of (open_fds s1) k \<noteq> None"
  using assms
  by (auto simp: open_new_def OpenFile_def Let_def split: prod.splits option.splits node.splits)

lemma rotate_unfold:
  "rotate env w s =
     (case open_new env w (emit Call_rotate s) of
        (Inl err, s1) \<Rightarrow> Returned (Some err, w, s1)
      | (Inr f, s1) \<Rightarrow>
          (case retention_sweep (w\<lparr>file_w := Some f, size_w := 0\<rparr>) (before_sweep env w f s1) of
             None \<Rightarrow> Panic
           | Some s6 \<Rightarrow> Returned (None, w\<lparr>file_w := Some f, size_w := 0\<rparr>, s6)))"
  by (simp add: rotate_def before_sweep_def Let_def split: prod.splits sum.splits)

lemma before_sweep_code [code]:
  "before_sweep env w f s1 =
     ownership_correction env w f
       (snd (Symlink (Base (fname f)) (Filename w) (snd (Remove (Filename w) (close_old w s1)))))"
  by (simp add: before_sweep_def ownership_correction_def close_old_def Let_def)

lemma rotate_code [code]:
  "rotate env w s = rotate_after_open env w (open_new env w (emit Call_rotate s))"
  by (cases "open_new env w (emit Call_rotate s)")
     (auto simp: rotate_unfold rotate_after_open_def split: sum.splits option.splits)

lemma before_sweep_trace:
  "\<exists>evs. trace (before_sweep env w f s1) = trace s1 @ evs \<and>
         (file_w w = None \<longrightarrow> (\<forall>k. Sys_Close k \<notin> set evs)) \<and>
         Call_rotate \<notin> set evs"
  by (cases "file_w w")
     (simp_all add: before_sweep_def Let_def Remove_trace Symlink_trace Lchown_trace Chown_trace
        file_Close_trace)

lemma before_sweep_open_fds:
  "file_w w = None \<Longrightarrow> open_fds (before_sweep env w f s1) = open_fds s1"
  by (simp add: before_sweep_def Let_def Remove_open_fds Symlink_open_fds
        Lchown_open_fds Chown_open_fds)

lemma before_sweep_faults: "faults (before_sweep env w f s1) = faults s1"
  by (cases "file_w w")
     (simp_all add: before_sweep_def Let_def Remove_faults Symlink_faults Lchown_faults
        Chown_faults file_Close_faults)

lemma rotate_Inr:
  assumes "open_new env w (emit Call_rotate s) = (Inr f, s1)"
    and "- 1 \<le> MaxBackups w" and "MaxBackups w < 2 ^ 63"
  shows "rotate env w s =
           Returned (None, w\<lparr>file_w := Some f, size_w := 0\<rparr>,
             remove_all
               (take (nat (wrap_int64
                        (int (length (fst (Glob (backup_pattern w) (before_sweep env w f s1))))
                           - MaxBackups w - 1)))
                  (sort (fst (Glob (backup_pattern w) (before_sweep env w f s1)))))
               (emit (Sys_Glob (backup_pattern w)) (before_sweep env w f s1)))"
proof -
  have p: "backup_pattern (w\<lparr>file_w := Some f, size_w := 0\<rparr>) = backup_pattern w"
    by (simp add: backup_pattern_def)
  have "retention_sweep (w\<lparr>file_w := Some f, size_w := 0\<rparr>) (before_sweep env w f s1)
          = Some (remove_all
               (take (nat (wrap_int64
                        (int (length (fst (Glob (backup_pattern w) (before_sweep env w f s1))))
                           - MaxBackups w - 1)))
                  (sort (fst (Glob (backup_pattern w) (before_sweep env w f s1)))))
               (emit (Sys_Glob (backup_pattern w)) (before_sweep env w f s1)))"
    using assms(2,3) retention_sweep_eq [of "w\<lparr>file_w := Some f, size_w := 0\<rparr>" "before_sweep env w f s1"]
    by (simp add: p)
  then show ?thesis
    using assms(1) by (simp add: rotate_unfold)
qed

section \<open>Facts about writing\<close>

lemma file_Write_closed:
  "map_of (open_fds s) (fd f) = None \<Longrightarrow>
     file_Write f p s = ((0, Some (PathError ''write'' (fname f) ErrClosed)), emit (Sys_Write (fd f) p) s)"
  by (simp add: file_Write_def Let_def)

lemma file_Close_closes: "map_of (open_fds (snd (file_Close f s))) (fd f) = None"
  by (auto simp: file_Close_def Let_def map_of_filter_key split: option.splits)

lemma wrap_int64_0 [simp]: "wrap_int64 0 = 0"
  by (simp add: wrap_int64_def)

lemma Write_check_nothing:
  "size_w w = 0 \<Longrightarrow> Write_check env 0 err w s = Returned (0, err, w, s)"
  by (simp add: Write_check_def Let_def)

lemma Write_from_code [code]:
  "Write_from env file0 w p s =
     (if file0 = None
      then write_created env p (if file_w w = None then create env w s else (None, None, w, s))
      else write_retry env w p (file_Write (the file0) p s))"
proof (cases file0)
  case None
  then show ?thesis
    by (cases "create env w s")
       (auto simp: Write_from_def write_created_def split: prod.splits option.splits)
next
  case (Some f)
  then show ?thesis
    by (cases "file_Write f p s")
       (auto simp: Write_from_def write_retry_def split: prod.splits option.splits)
qed

lemma first_write_value:
  "\<not> is_Panic first_write \<and> fst (returned first_write) = 5 \<and> fst (snd (returned first_write)) = None \<and>
   file_w (fst (snd (snd (returned first_write))))
     = Some \<lparr>fd = 3, fname = ''/var/log/app.2024-05-01T00-00-00.log''\<rparr>"
  by code_simp

lemma Write_on_closed_handle:
  assumes "file_w w = Some f" and "size_w w = 0" and "map_of (open_fds s) (fd f) = None"
  shows "Write env w p s =
           Returned (0, Some (PathError ''write'' (fname f) ErrClosed), w,
             s\<lparr>trace := trace s @ [Sys_Write (fd f) p, Sys_Write (fd f) p]\<rparr>)"
proof -
  have closed2: "map_of (open_fds (emit (Sys_Write (fd f) p) s)) (fd f) = None"
    using assms(3) by simp
  have e: "is_ErrClosed (Some (PathError ''write'' (fname f) ErrClosed))"
    by (simp add: is_ErrClosed_def)
  have "Write env w p s =
          Returned (0, Some (PathError ''write'' (fname f) ErrClosed), w,
            emit (Sys_Write (fd f) p) (emit (Sys_Write (fd f) p) s))"
    using assms(1,2)
    by (simp add: Write_def Write_from_def file_Write_closed [OF assms(3)]
          file_Write_closed [OF closed2] e Write_check_nothing)
  moreover have "emit (Sys_Write (fd f) p) (emit (Sys_Write (fd f) p) s)
       = s\<lparr>trace := trace s @ [Sys_Write (fd f) p, Sys_Write (fd f) p]\<rparr>"
    by (simp add: emit_def)
  ultimately show ?thesis by simp
qed

lemma Writes_on_closed_handle:
  assumes "file_w w = Some f" and "size_w w = 0" and "map_of (open_fds s) (fd f) = None"
  shows "Writes env w ps s =
           Returned (map (\<lambda>p. (0, Some (PathError ''write'' (fname f) ErrClosed))) ps, w,
             s\<lparr>trace := trace s @ concat (map (\<lambda>p. [Sys_Write (fd f) p, Sys_Write (fd f) p]) ps)\<rparr>)"
  using assms(3)
proof (induction ps arbitrary: s)
  case Nil
  show ?case by simp
next
  case (Cons p ps)
  let ?s1 = "s\<lparr>trace := trace s @ [Sys_Write (fd f) p, Sys_Write (fd f) p]\<rparr>"
  have w1: "Write env w p s =
           Returned (0, Some (PathError ''write'' (fname f) ErrClosed), w, ?s1)"
    using Write_on_closed_handle [OF assms(1,2) Cons.prems] .
  have c1: "map_of (open_fds ?s1) (fd f) = None"
    using Cons.prems by simp
  show ?case
    by (simp add: w1 Cons.IH [OF c1])
qed

section \<open>Facts about the trace of a call\<close>





















section \<open>Facts about the timestamp\<close>

lemma digit_char_code: "0 \<le> d \<Longrightarrow> d \<le> 9 \<Longrightarrow> of_char (digit_char d) = (48 + nat d :: nat)"
proof -
  assume "0 \<le> d" "d \<le> 9"
  then have "d = 0 \<or> d = 1 \<or> d = 2 \<or> d = 3 \<or> d = 4 \<or> d = 5 \<or> d = 6 \<or> d = 7 \<or> d = 8 \<or> d = 9"
    by arith
  then show ?thesis
    by (elim disjE) (simp_all add: digit_char_def)
qed

lemma digits_1: "n < 10 \<Longrightarrow> digits n = [digit_char n]"
  by (subst digits.simps) simp

lemma digits_2: "10 \<le> n \<Longrightarrow> n < 100 \<Longrightarrow> digits n = [digit_char (n div 10), digit_char (n mod 10)]"
  by (subst digits.simps) (simp add: digits_1)

lemma digits_3:
  "100 \<le> n \<Longrightarrow> n < 1000 \<Longrightarrow>
     digits n = [digit_char (n div 100), digit_char (n div 10 mod 10), digit_char (n mod 10)]"
proof -
  assume a: "100 \<le> n" "n < 1000"
  then have "10 \<le> n div 10" "n div 10 < 100" by simp_all
  then have "digits (n div 10) = [digit_char (n div 10 div 10), digit_char (n div 10 mod 10)]"
    by (rule digits_2)
  moreover have "n div 10 div 10 = n div 100" by simp
  ultimately show ?thesis using a
    by (subst digits.simps) simp
qed

lemma digits_4:
  "1000 \<le> n \<Longrightarrow> n < 10000 \<Longrightarrow>
     digits n = [digit_char (n div 1000), digit_char (n div 100 mod 10),
                 digit_char (n div 10 mod 10), digit_char (n mod 10)]"
proof -
  assume a: "1000 \<le> n" "n < 10000"
  then have "100 \<le> n div 10" "n div 10 < 1000" by simp_all
  then have "digits (n div 10) = [digit_char (n div 10 div 100), digit_char (n div 10 div 10 mod 10),
       digit_char (n div 10 mod 10)]"
    by (rule digits_3)
  moreover have "n div 10 div 100 = n div 1000" "n div 10 div 10 = n div 100" by simp_all
  ultimately show ?thesis using a
    by (subst digits.simps) simp
qed

lemma digit_char_0: "digit_char 0 = CHR ''0''"
  by (simp add: digit_char_def)

lemma appendInt_2:
  assumes "0 \<le> n" and "n < 100"
  shows "appendInt n 2 = two_digits n"
proof (cases "n < 10")
  case True
  with assms show ?thesis
    by (simp add: appendInt_def two_digits_def digits_1 digit_char_0 Let_def)
next
  case False
  with assms show ?thesis
    by (simp add: appendInt_def two_digits_def digits_2 Let_def)
qed

lemma appendInt_4:
  assumes "0 \<le> n" and "n < 10000"
  shows "appendInt n 4 = four_digits n"
proof -
  consider "n < 10" | "10 \<le> n" "n < 100" | "100 \<le> n" "n < 1000" | "1000 \<le> n"
    by linarith
  then show ?thesis
  proof cases
    case 1
    with assms show ?thesis
      by (simp add: appendInt_def four_digits_def digits_1 digit_char_0 Let_def numeral_eq_Suc)
  next
    case 2
    with assms show ?thesis
      by (simp add: appendInt_def four_digits_def digits_2 digit_char_0 Let_def numeral_eq_Suc)
  next
    case 3
    with assms show ?thesis
      by (simp add: appendInt_def four_digits_def digits_3 digit_char_0 Let_def numeral_eq_Suc)
  next
    case 4
    with assms show ?thesis
      by (simp add: appendInt_def four_digits_def digits_4 Let_def)
  qed
qed

lemma Format_stamp_valid:
  assumes "valid_civil (reading t)"
  shows "Format_stamp t = stamp_of (reading t)"
  using assms
  by (simp add: Format_stamp_def stamp_of_def valid_civil_def Let_def appendInt_2 appendInt_4)

section \<open>Facts about the retention sweep\<close>










section \<open>Values of the concrete runs\<close>







section \<open>Writing after \<open>Close\<close>\<close>

text \<open>
  Claim C1, as amended.  \<open>Close\<close> on a writer with a handle closes the handle,
  sets the counter to zero and leaves the closed handle installed.  The calls of \<open>Write\<close>
  that follow, however many, open no file: each tries the closed handle, tries it once
  more, and returns \<open>0\<close> with the \<open>ErrClosed\<close> path error of that handle; the writer
  stays as \<open>Close\<close> left it, and the world too, but for the two write calls that each
  \<open>Write\<close> adds to the trace.
\<close>

theorem Writes_after_Close_fail_closed:
  assumes "file_w w = Some f"
  shows "fst (snd (Close w s)) = w\<lparr>size_w := 0\<rparr> \<and>
         file_w (fst (snd (Close w s))) = Some f \<and>
         Writes env (fst (snd (Close w s))) ps (snd (snd (Close w s))) =
           Returned (map (\<lambda>p. (0, Some (PathError ''write'' (fname f) ErrClosed))) ps,
             fst (snd (Close w s)),
             (snd (snd (Close w s)))
               \<lparr>trace := trace (snd (snd (Close w s)))
                           @ concat (map (\<lambda>p. [Sys_Write (fd f) p, Sys_Write (fd f) p]) ps)\<rparr>)"
proof -
  obtain cerr s1 where c: "file_Close f s = (cerr, s1)" by (cases "file_Close f s")
  have cl: "Close w s = (cerr, w\<lparr>size_w := 0\<rparr>, s1)"
    using assms c by (simp add: Close_def)
  have closed: "map_of (open_fds s1) (fd f) = None"
    using file_Close_closes [of f s] c by simp
  have f: "file_w (w\<lparr>size_w := 0\<rparr>) = Some f" "size_w (w\<lparr>size_w := 0\<rparr>) = 0"
    using assms by simp_all
  from Writes_on_closed_handle [OF f closed, of env ps] cl assms show ?thesis
    by simp
qed

theorem Writes_after_Close_fail_closed_witness:
  "file_w (fst (snd (snd (returned first_write))))
     = Some \<lparr>fd = 3, fname = ''/var/log/app.2024-05-01T00-00-00.log''\<rparr> \<and>
   (\<exists>w s. Writes example_proc
       (fst (snd (Close (fst (snd (snd (returned first_write)))) (snd (snd (snd (returned first_write)))))))
       [''again'', ''and again'']
       (snd (snd (Close (fst (snd (snd (returned first_write)))) (snd (snd (snd (returned first_write)))))))
     = Returned ([(0, Some (PathError ''write'' ''/var/log/app.2024-05-01T00-00-00.log'' ErrClosed)),
                  (0, Some (PathError ''write'' ''/var/log/app.2024-05-01T00-00-00.log'' ErrClosed))],
                 w, s))"
proof -
  have h: "file_w (fst (snd (snd (returned first_write))))
     = Some \<lparr>fd = 3, fname = ''/var/log/app.2024-05-01T00-00-00.log''\<rparr>"
    using first_write_value by simp
  from Writes_after_Close_fail_closed [OF h, of "snd (snd (snd (returned first_write)))" example_proc
      "[''again'', ''and again'']"] h
  show ?thesis by auto
qed

text \<open>
  The claim as it stands fails on a fresh writer that writes, closes and writes again:
  the second write returns an error, and the trace has one open call, the one of the
  first write.
\<close>

theorem Write_after_Close_counterexample:
  "\<not> is_Panic write_close_write \<and>
   fst (returned write_close_write) = 0 \<and>
   fst (snd (returned write_close_write))
     = Some (PathError ''write'' ''/var/log/app.2024-05-01T00-00-00.log'' ErrClosed) \<and>
   trace (snd (snd (snd (returned write_close_write)))) =
     [Sys_OpenFile ''/var/log/app.2024-05-01T00-00-00.log'' 1089 420,
      Sys_Remove ''/var/log/app.log'',
      Sys_Symlink ''app.2024-05-01T00-00-00.log'' ''/var/log/app.log'',
      Sys_Write 3 ''hello'', Sys_Close 3, Sys_Write 3 ''again'', Sys_Write 3 ''again'']"
  by code_simp

section \<open>The first write under contention\<close>

text \<open>
  Claim C2.  A \<open>Write\<close> that loaded no handle on line 34 and finds, under the lock,
  that a handle has been installed meanwhile, skips \<open>create\<close> and leaves its local
  \<open>file\<close> nil; the type assertion of line 52 then panics.  This holds for every state
  with a handle installed, and in particular for the fresh writer on which a second
  goroutine completes its first write between line 34 and line 43 of the first.
\<close>

theorem Write_resumed_after_concurrent_create_panics:
  "Write_from env None (w\<lparr>file_w := Some f\<rparr>) p s = Panic \<and>
   \<not> is_Panic first_write \<and>
   fst (snd (returned first_write)) = None \<and>
   file_w example_writer = None \<and>
   file_w (fst (snd (snd (returned first_write)))) \<noteq> None \<and>
   is_Panic racing_write"
proof -
  have a: "Write_from env None (w\<lparr>file_w := Some f\<rparr>) p s = Panic"
    by (simp add: Write_from_def)
  have b: "\<not> is_Panic first_write \<and>
   fst (snd (returned first_write)) = None \<and>
   file_w example_writer = None \<and>
   file_w (fst (snd (snd (returned first_write)))) \<noteq> None \<and>
   is_Panic racing_write"
    by code_simp
  from a b show ?thesis by simp
qed

section \<open>Rotation and its failures\<close>

text \<open>
  Claim C3.  \<open>rotate\<close> returns an error exactly when opening the new backing file
  fails.  Then the writer is unchanged (handle and byte counter), the world differs only
  by the two trace entries, and a write through the old handle gives what it gave
  before.  When the open succeeds, \<open>rotate\<close> never returns an error, whatever the
  removal and creation of the symbolic link, the two ownership calls, the glob and the
  removals of backups do; with \<open>MaxBackups\<close> of at least \<open>-1\<close> it returns \<open>nil\<close> with the
  new handle installed and the counter at zero.
\<close>

theorem rotate_error_iff_open_fails:
  "(case open_new env w (emit Call_rotate s) of
      (Inl err, s1) \<Rightarrow>
         rotate env w s = Returned (Some err, w, s1) \<and>
         s1 = s\<lparr>trace := trace s @ [Call_rotate,
                  Sys_OpenFile (fst (openinfo env w (now s))) (fst (snd (openinfo env w (now s))))
                      (snd (snd (openinfo env w (now s))))]\<rparr> \<and>
         (\<forall>old p. file_w w = Some old \<longrightarrow> fst (file_Write old p s1) = fst (file_Write old p s))
    | (Inr f, s1) \<Rightarrow>
         (\<forall>err w' s'. rotate env w s \<noteq> Returned (Some err, w', s')) \<and>
         (- 1 \<le> MaxBackups w \<and> MaxBackups w < 2 ^ 63 \<longrightarrow>
            (\<exists>s'. rotate env w s = Returned (None, w\<lparr>file_w := Some f, size_w := 0\<rparr>, s'))))"
proof (cases "open_new env w (emit Call_rotate s)")
  case (Pair r s1)
  show ?thesis
  proof (cases r)
    case (Inl err)
    with Pair have o: "open_new env w (emit Call_rotate s) = (Inl err, s1)" by simp
    have s1: "s1 = s\<lparr>trace := trace s @ [Call_rotate,
                  Sys_OpenFile (fst (openinfo env w (now s))) (fst (snd (openinfo env w (now s))))
                      (snd (snd (openinfo env w (now s))))]\<rparr>"
      using open_new_Inl [OF o] by (simp add: emit_def)
    have r: "rotate env w s = Returned (Some err, w, s1)"
      using o by (simp add: rotate_def Let_def)
    have wr: "\<forall>old p. file_w w = Some old \<longrightarrow> fst (file_Write old p s1) = fst (file_Write old p s)"
      by (subst s1) (auto simp: file_Write_def Let_def emit_def split: option.splits)
    from o r s1 wr show ?thesis by simp
  next
    case (Inr f)
    with Pair have o: "open_new env w (emit Call_rotate s) = (Inr f, s1)" by simp
    have a: "\<forall>err w' s'. rotate env w s \<noteq> Returned (Some err, w', s')"
      using o by (auto simp: rotate_def Let_def split: option.splits)
    have b: "- 1 \<le> MaxBackups w \<and> MaxBackups w < 2 ^ 63 \<longrightarrow>
            (\<exists>s'. rotate env w s = Returned (None, w\<lparr>file_w := Some f, size_w := 0\<rparr>, s'))"
      using o by (auto simp: rotate_def Let_def retention_sweep_eq)
    from o a b show ?thesis by simp
  qed
qed

lemma open_new_maintenance_fault: "fst (open_new sudo_proc example_writer (emit Call_rotate maintenance_fault_world))
   = Inr \<lparr>fd = 3, fname = ''/var/log/app.2024-05-01T00-00-00.log''\<rparr>"
  by code_simp

lemma open_new_open_fault: "fst (open_new example_proc example_writer (emit Call_rotate open_fault_world))
   = Inl (PathError ''open'' ''/var/log/app.2024-05-01T00-00-00.log'' (Errno 13))"
  by code_simp

theorem rotate_error_iff_open_fails_witness:
  "(\<exists>s'. rotate sudo_proc example_writer maintenance_fault_world =
           Returned (None, example_writer\<lparr>file_w := Some \<lparr>fd = 3, fname = ''/var/log/app.2024-05-01T00-00-00.log''\<rparr>,
                                           size_w := 0\<rparr>, s'))
   \<and> (\<exists>s'. rotate example_proc example_writer open_fault_world =
           Returned (Some (PathError ''open'' ''/var/log/app.2024-05-01T00-00-00.log'' (Errno 13)),
                     example_writer, s'))
   \<and> - 1 \<le> MaxBackups example_writer \<and> MaxBackups example_writer < 2 ^ 63"
proof -
  have mb: "- 1 \<le> MaxBackups example_writer \<and> MaxBackups example_writer < 2 ^ 63"
    by (simp add: example_writer_def)
  obtain s1 where o1: "open_new sudo_proc example_writer (emit Call_rotate maintenance_fault_world)
      = (Inr \<lparr>fd = 3, fname = ''/var/log/app.2024-05-01T00-00-00.log''\<rparr>, s1)"
    using open_new_maintenance_fault by (cases "open_new sudo_proc example_writer (emit Call_rotate maintenance_fault_world)") simp
  obtain s2 where o2: "open_new example_proc example_writer (emit Call_rotate open_fault_world)
      = (Inl (PathError ''open'' ''/var/log/app.2024-05-01T00-00-00.log'' (Errno 13)), s2)"
    using open_new_open_fault by (cases "open_new example_proc example_writer (emit Call_rotate open_fault_world)") simp
  from rotate_error_iff_open_fails [of sudo_proc example_writer maintenance_fault_world] o1 mb
  have a: "\<exists>s'. rotate sudo_proc example_writer maintenance_fault_world =
           Returned (None, example_writer\<lparr>file_w := Some \<lparr>fd = 3, fname = ''/var/log/app.2024-05-01T00-00-00.log''\<rparr>,
                                           size_w := 0\<rparr>, s')"
    by simp
  from rotate_error_iff_open_fails [of example_proc example_writer open_fault_world] o2
  have b: "\<exists>s'. rotate example_proc example_writer open_fault_world =
           Returned (Some (PathError ''open'' ''/var/log/app.2024-05-01T00-00-00.log'' (Errno 13)),
                     example_writer, s')"
    by simp
  from a b mb show ?thesis by blast
qed

section \<open>The retention sweep\<close>




section \<open>The retention sweep and the newest backup\<close>




section \<open>Rotation by size\<close>



section \<open>Creation\<close>

text \<open>
  Claim C8, as amended.  \<open>create\<close> fails exactly when the backing file cannot be
  opened, with the error of the open and the writer unchanged.  When the open succeeds
  it returns the new handle and no error, with the handle installed and the counter at
  zero, after one removal and one symlink call on the target path; this is so also when
  the symlink call fails: the failure is dropped and the handle is not rolled back.
\<close>

theorem create_error_iff_open_fails:
  "(case open_new env w s of
      (Inl err, s1) \<Rightarrow> create env w s = (None, Some err, w, s1)
    | (Inr f, s1) \<Rightarrow>
        (\<exists>s'. create env w s = (Some f, None, w\<lparr>file_w := Some f, size_w := 0\<rparr>, s') \<and>
               new_events s1 s' = [Sys_Remove (Filename w), Sys_Symlink (Base (fname f)) (Filename w)] \<and>
               (faults s Op_symlink (Filename w) \<noteq> None \<longrightarrow>
                  fst (Symlink (Base (fname f)) (Filename w) (snd (Remove (Filename w) s1))) \<noteq> None)))"
proof (cases "open_new env w s")
  case (Pair r s1)
  show ?thesis
  proof (cases r)
    case (Inl err)
    with Pair show ?thesis by (simp add: create_def)
  next
    case (Inr f)
    with Pair have o: "open_new env w s = (Inr f, s1)" by simp
    have f1: "faults s1 = faults s" using open_new_Inr(4) [OF o] by simp
    have "faults s Op_symlink (Filename w) \<noteq> None \<longrightarrow>
                  fst (Symlink (Base (fname f)) (Filename w) (snd (Remove (Filename w) s1))) \<noteq> None"
      by (auto simp: Symlink_def Let_def Remove_faults f1 split: option.splits)
    with o show ?thesis
      by (simp add: create_def Let_def new_events_def Symlink_trace Remove_trace)
  qed
qed

lemma open_new_symlink_fault:
  "fst (open_new example_proc example_writer symlink_fault_world)
     = Inr \<lparr>fd = 3, fname = ''/var/log/app.2024-05-01T00-00-00.log''\<rparr>"
  by code_simp

theorem create_error_iff_open_fails_witness:
  "faults symlink_fault_world Op_symlink (Filename example_writer) \<noteq> None \<and>
   (\<exists>s'. create example_proc example_writer symlink_fault_world =
      (Some \<lparr>fd = 3, fname = ''/var/log/app.2024-05-01T00-00-00.log''\<rparr>, None,
       example_writer\<lparr>file_w := Some \<lparr>fd = 3, fname = ''/var/log/app.2024-05-01T00-00-00.log''\<rparr>,
                      size_w := 0\<rparr>, s'))"
proof -
  have fl: "faults symlink_fault_world Op_symlink (Filename example_writer) \<noteq> None"
    by (simp add: symlink_fault_world_def)
  obtain s1 where o: "open_new example_proc example_writer symlink_fault_world
      = (Inr \<lparr>fd = 3, fname = ''/var/log/app.2024-05-01T00-00-00.log''\<rparr>, s1)"
    using open_new_symlink_fault
    by (cases "open_new example_proc example_writer symlink_fault_world") simp
  from create_error_iff_open_fails [of example_proc example_writer symlink_fault_world] o fl
  show ?thesis by auto
qed

text \<open>
  The claim as it stands fails where only the symlink cannot be created: \<open>create\<close>
  returns no error, the symlink call was made, and no symlink is at the target path.
\<close>

theorem create_symlink_failure_counterexample:
  "fst (snd (create example_proc example_writer symlink_fault_world)) = None \<and>
   Sys_Symlink ''app.2024-05-01T00-00-00.log'' ''/var/log/app.log''
     \<in> set (trace (snd (snd (snd (create example_proc example_writer symlink_fault_world))))) \<and>
   map_of (dir (snd (snd (snd (create example_proc example_writer symlink_fault_world)))))
     ''/var/log/app.log'' = None"
  by code_simp

section \<open>The public \<open>Rotate\<close> before any write\<close>

text \<open>
  Claim C10, as amended.  \<open>Rotate\<close> on a writer without a handle, when \<open>MaxBackups\<close>
  is an \<open>int\<close> of at least \<open>-1\<close> and the open of the new backing file succeeds, returns
  no error: the new file, named for the current time, is installed as the handle and is
  open, the counter is zero, no close call is made, and every descriptor that was open
  stays open.
\<close>

theorem Rotate_without_handle:
  assumes "file_w w = None" and "- 1 \<le> MaxBackups w" and "MaxBackups w < 2 ^ 63"
    and "open_new env w (emit Call_rotate s) = (Inr f, s1)"
  shows "\<exists>s'. Rotate env w s = Returned (None, w\<lparr>file_w := Some f, size_w := 0\<rparr>, s') \<and>
               (\<forall>k. Sys_Close k \<notin> set (new_events s s')) \<and>
               fname f = fst (openinfo env w (now s)) \<and>
               map_of (open_fds s') (fd f) \<noteq> None \<and>
               (\<forall>k. map_of (open_fds s) k \<noteq> None \<longrightarrow> map_of (open_fds s') k \<noteq> None)"
proof -
  from rotate_Inr [OF assms(4,2,3)] obtain ns where
    r: "rotate env w s = Returned (None, w\<lparr>file_w := Some f, size_w := 0\<rparr>,
             remove_all ns (emit (Sys_Glob (backup_pattern w)) (before_sweep env w f s1)))"
    by simp
  let ?s' = "remove_all ns (emit (Sys_Glob (backup_pattern w)) (before_sweep env w f s1))"
  have t1: "trace s1 = trace s @ [Call_rotate, Sys_OpenFile (fst (openinfo env w (now s)))
        (fst (snd (openinfo env w (now s)))) (snd (snd (openinfo env w (now s))))]"
    using open_new_trace [of env w "emit Call_rotate s"] assms(4) by simp
  from before_sweep_trace [of env w f s1] assms(1) obtain evs where
    evs: "trace (before_sweep env w f s1) = trace s1 @ evs" "\<forall>k. Sys_Close k \<notin> set evs"
    by blast
  have t: "new_events s ?s' = [Call_rotate, Sys_OpenFile (fst (openinfo env w (now s)))
        (fst (snd (openinfo env w (now s)))) (snd (snd (openinfo env w (now s))))] @ evs
        @ [Sys_Glob (backup_pattern w)] @ map Sys_Remove ns"
    unfolding new_events_def remove_all_trace emit_fields evs(1) t1 by simp
  have nc: "\<forall>k. Sys_Close k \<notin> set (new_events s ?s')"
    unfolding t using evs(2) by auto
  have fds: "open_fds ?s' = open_fds s1"
    using assms(1) by (simp add: remove_all_open_fds before_sweep_open_fds)
  have f: "fname f = fst (openinfo env w (now s))" "map_of (open_fds s1) (fd f) \<noteq> None"
    using open_new_Inr(2,3) [OF assms(4)] by simp_all
  have keep: "\<forall>k. map_of (open_fds s) k \<noteq> None \<longrightarrow> map_of (open_fds s1) k \<noteq> None"
    using open_new_Inr(5) [OF assms(4)] by simp
  from r nc f keep fds show ?thesis
    by (intro exI [of _ ?s']) (simp add: Rotate_def)
qed

lemma open_new_empty_world:
  "fst (open_new example_proc example_writer (emit Call_rotate empty_world))
     = Inr \<lparr>fd = 3, fname = ''/var/log/app.2024-05-01T00-00-00.log''\<rparr>"
  by code_simp

theorem Rotate_without_handle_witness:
  "file_w example_writer = None \<and> - 1 \<le> MaxBackups example_writer \<and>
   MaxBackups example_writer < 2 ^ 63 \<and>
   (\<exists>s'. Rotate example_proc example_writer empty_world =
      Returned (None,
        example_writer\<lparr>file_w := Some \<lparr>fd = 3, fname = ''/var/log/app.2024-05-01T00-00-00.log''\<rparr>,
                       size_w := 0\<rparr>, s') \<and>
      (\<forall>k. Sys_Close k \<notin> set (new_events empty_world s')))"
proof -
  have h: "file_w example_writer = None" "- 1 \<le> MaxBackups example_writer"
    "MaxBackups example_writer < 2 ^ 63"
    by (simp_all add: example_writer_def)
  obtain s1 where o: "open_new example_proc example_writer (emit Call_rotate empty_world)
      = (Inr \<lparr>fd = 3, fname = ''/var/log/app.2024-05-01T00-00-00.log''\<rparr>, s1)"
    using open_new_empty_world
    by (cases "open_new example_proc example_writer (emit Call_rotate empty_world)") simp
  from Rotate_without_handle [OF h o] h show ?thesis by auto
qed

text \<open>
  The claim as it stands fails for \<open>MaxBackups = -2\<close>: on the fresh writer the open
  succeeds, the retention loop removes the one match and then reads \<open>names[1]\<close>, and
  \<open>Rotate\<close> panics.
\<close>

theorem Rotate_without_handle_counterexample:
  "file_w (example_writer\<lparr>MaxBackups := - 2\<rparr>) = None \<and>
   isl (fst (open_new example_proc (example_writer\<lparr>MaxBackups := - 2\<rparr>) (emit Call_rotate empty_world)))
     = False \<and>
   is_Panic (Rotate example_proc (example_writer\<lparr>MaxBackups := - 2\<rparr>) empty_world)"
  by code_simp

section \<open>Naming\<close>

text \<open>
  Claim C6, as amended.  The backup name is a function of the target path, the time
  and the configuration (with the host name and the process id of the process): the
  stem of the target, the timestamp, then \<open>.<host>-<pid>\<close> when both \<open>HostName\<close> and
  \<open>ProcessID\<close> are set, \<open>.<host>\<close> or \<open>.<pid>\<close> when one of them is, and nothing when
  neither is, then the extension of the target; stem and extension together are the
  target path, and the extension is empty when the last element of the path has no dot
  and else begins at its last dot.  The timestamp is read from the UTC reading of the time unless
  \<open>LocalTime\<close> is set, when it is read in the location of the time; for a reading with
  a year of four digits it is a dot and \<open>YYYY-MM-DDTHH-MM-SS\<close> in decimal digits, twenty
  bytes, to the second.  For the target \<open>/var/log/app.log\<close>, host \<open>h\<close>, pid \<open>123\<close>, both
  options set and the time 2024-05-01T00:00:00 UTC the name is
  \<open>/var/log/app.2024-05-01T00-00-00.h-123.log\<close>.
\<close>

theorem openinfo_name:
  "fst (openinfo env w t) =
     take (length (Filename w) - length (Ext (Filename w))) (Filename w)
       @ Format_stamp (if LocalTime w then t else UTC t)
       @ (if HostName w then ''.'' @ hostname env else [])
       @ (if ProcessID w then (if HostName w then ''-'' else ''.'') @ pid env else [])
       @ Ext (Filename w)
   \<and> take (length (Filename w) - length (Ext (Filename w))) (Filename w) @ Ext (Filename w)
       = Filename w
   \<and> reading (if LocalTime w then t else UTC t)
       = (if LocalTime w \<and> \<not> in_UTC t then zone_reading t else utc_reading t)
   \<and> (valid_civil (reading t') \<longrightarrow>
        Format_stamp t' = stamp_of (reading t') \<and> length (Format_stamp t') = 20)
   \<and> (0 \<le> d \<and> d \<le> 9 \<longrightarrow> of_char (digit_char d) = (48 + nat d :: nat))
   \<and> ((Ext (Filename w) = [] \<and>
         CHR ''.'' \<notin> set (takeWhile (\<lambda>c. c \<noteq> CHR ''/'') (rev (Filename w)))) \<or>
        (\<exists>e. Ext (Filename w) = CHR ''.'' # e \<and> CHR ''.'' \<notin> set e \<and> CHR ''/'' \<notin> set e))
   \<and> fst (openinfo
        \<lparr>hostname = ''h'', pid = ''123'', SUDO_UID = su, SUDO_GID = sg, euid = eu\<rparr>
        \<lparr>size_w = sz, file_w = fl, Filename = ''/var/log/app.log'', MaxSize = ms, MaxBackups = mb,
          FileMode = fm, LocalTime = False, HostName = True, ProcessID = True\<rparr>
        \<lparr>utc_reading = \<lparr>year = 2024, month = 5, day = 1, hour = 0, minute = 0, second = 0\<rparr>,
          zone_reading = z, in_UTC = b\<rparr>)
       = ''/var/log/app.2024-05-01T00-00-00.h-123.log''"
proof (intro conjI impI)
  show "fst (openinfo env w t) =
     take (length (Filename w) - length (Ext (Filename w))) (Filename w)
       @ Format_stamp (if LocalTime w then t else UTC t)
       @ (if HostName w then ''.'' @ hostname env else [])
       @ (if ProcessID w then (if HostName w then ''-'' else ''.'') @ pid env else [])
       @ Ext (Filename w)"
    by (simp add: openinfo_def Let_def)
  show "take (length (Filename w) - length (Ext (Filename w))) (Filename w) @ Ext (Filename w)
       = Filename w"
    by (rule stem_Ext)
  show "reading (if LocalTime w then t else UTC t)
       = (if LocalTime w \<and> \<not> in_UTC t then zone_reading t else utc_reading t)"
    by (simp add: reading_def UTC_def)
  show "Format_stamp t' = stamp_of (reading t')" if "valid_civil (reading t')"
    using that by (rule Format_stamp_valid)
  show "length (Format_stamp t') = 20" if "valid_civil (reading t')"
    using Format_stamp_valid [OF that]
    by (simp add: stamp_of_def two_digits_def four_digits_def)
  show "of_char (digit_char d) = (48 + nat d :: nat)" if "0 \<le> d \<and> d \<le> 9"
    using that by (simp add: digit_char_code)
  show "(Ext (Filename w) = [] \<and>
         CHR ''.'' \<notin> set (takeWhile (\<lambda>c. c \<noteq> CHR ''/'') (rev (Filename w)))) \<or>
        (\<exists>e. Ext (Filename w) = CHR ''.'' # e \<and> CHR ''.'' \<notin> set e \<and> CHR ''/'' \<notin> set e)"
    by (rule Ext_shape)
  have e: "Ext ''/var/log/app.log'' = ''.log''"
    by code_simp
  have d: "appendInt 2024 4 = ''2024''" "appendInt 5 2 = ''05''" "appendInt 1 2 = ''01''"
    "appendInt 0 2 = ''00''"
    by code_simp+
  show "fst (openinfo
        \<lparr>hostname = ''h'', pid = ''123'', SUDO_UID = su, SUDO_GID = sg, euid = eu\<rparr>
        \<lparr>size_w = sz, file_w = fl, Filename = ''/var/log/app.log'', MaxSize = ms, MaxBackups = mb,
          FileMode = fm, LocalTime = False, HostName = True, ProcessID = True\<rparr>
        \<lparr>utc_reading = \<lparr>year = 2024, month = 5, day = 1, hour = 0, minute = 0, second = 0\<rparr>,
          zone_reading = z, in_UTC = b\<rparr>)
       = ''/var/log/app.2024-05-01T00-00-00.h-123.log''"
    by (simp add: openinfo_def Let_def e d Format_stamp_def reading_def UTC_def)
qed

lemma zoned_time_valid:
  "valid_civil (reading zoned_time) \<and> valid_civil (reading (UTC zoned_time)) \<and>
   stamp_of (reading zoned_time) = ''.2024-04-30T20-00-07'' \<and>
   stamp_of (reading (UTC zoned_time)) = ''.2024-05-01T00-00-07''"
  by code_simp

theorem openinfo_name_witness:
  "valid_civil (reading zoned_time) \<and> valid_civil (reading (UTC zoned_time)) \<and>
   (0 \<le> (7 :: int) \<and> (7 :: int) \<le> 9) \<and> digit_char 7 = CHR ''7'' \<and>
   fst (openinfo example_proc (example_writer\<lparr>LocalTime := True, ProcessID := True\<rparr>) zoned_time)
     = ''/var/log/app.2024-04-30T20-00-07.123.log'' \<and>
   fst (openinfo example_proc (example_writer\<lparr>HostName := True\<rparr>) zoned_time)
     = ''/var/log/app.2024-05-01T00-00-07.h.log''"
proof -
  note v = zoned_time_valid
  have e: "Ext ''/var/log/app.log'' = ''.log''"
    by code_simp
  have f1: "Format_stamp zoned_time = ''.2024-04-30T20-00-07''"
    using openinfo_name [where t' = zoned_time, THEN conjunct2, THEN conjunct2, THEN conjunct2,
        THEN conjunct1] v
    by simp
  have f2: "Format_stamp (UTC zoned_time) = ''.2024-05-01T00-00-07''"
    using openinfo_name [where t' = "UTC zoned_time", THEN conjunct2, THEN conjunct2,
        THEN conjunct2, THEN conjunct1] v
    by simp
  have n1: "fst (openinfo example_proc (example_writer\<lparr>LocalTime := True, ProcessID := True\<rparr>) zoned_time)
     = ''/var/log/app.2024-04-30T20-00-07.123.log''"
    using openinfo_name [of example_proc "example_writer\<lparr>LocalTime := True, ProcessID := True\<rparr>"
        zoned_time, THEN conjunct1]
    by (simp add: e f1 example_writer_def example_proc_def)
  have n2: "fst (openinfo example_proc (example_writer\<lparr>HostName := True\<rparr>) zoned_time)
     = ''/var/log/app.2024-05-01T00-00-07.h.log''"
    using openinfo_name [of example_proc "example_writer\<lparr>HostName := True\<rparr>" zoned_time,
        THEN conjunct1]
    by (simp add: e f2 example_writer_def example_proc_def)
  have "of_char (digit_char 7) = (48 + nat 7 :: nat)"
    using openinfo_name [where d = 7, THEN conjunct2, THEN conjunct2, THEN conjunct2,
        THEN conjunct2, THEN conjunct1]
    by simp
  then have d7: "digit_char 7 = CHR ''7''"
    by (simp add: digit_char_def)
  from v n1 n2 d7 show ?thesis by simp
qed

text \<open>
  The claim as it stands gives the pattern \<open><stem><timestamp>[.<host>][.<pid>]<ext>\<close>.
  With both options set the code does not produce the name of that pattern: the
  process id follows the host name after a dash.
\<close>

theorem openinfo_name_counterexample:
  "HostName host_pid_writer \<and> ProcessID host_pid_writer \<and>
   fst (openinfo example_proc host_pid_writer (example_time 0))
     \<noteq> ''/var/log/app.2024-05-01T00-00-00.h.123.log'' \<and>
   fst (openinfo example_proc host_pid_writer (example_time 0))
     = ''/var/log/app.2024-05-01T00-00-00.h-123.log''"
  by code_simp

end
